theory Spec2Isabelle
  imports Main
begin

section \<open>The in-memory message board of \<open>main.go\<close>\<close>

text \<open>
  The program keeps one global map \<open>liveMessages\<close> from channel names to subjects; a
  subject holds the slice of posted messages, every message its slice of threads. Four
  HTTP handlers read and update the map. Each handler is embedded as a function from
  its decoded request and the map to the response written and the map afterwards.

  Go's \<open>int\<close> is modelled as \<open>int\<close>: the only arithmetic is \<open>len + 1\<close> on a slice
  length, which cannot leave the 64-bit range, and \<open>Atoi\<close> rejects text outside it. The
  mutexes are not part of the state. A read handler and \<open>postThread\<close> are one step each;
  \<open>postMessage\<close> is written as the two blocks it consists of, so that the map between
  them can be named.
\<close>

subsection \<open>Data\<close>

record Thread =
  ThreadUsername :: string
  ThreadMessage :: string

record msgPost =
  Id :: int
  Username :: string
  Message :: string
  Threads :: "Thread list"

record subject =
  Messages :: "msgPost list"
  title :: string

type_synonym liveMessages = "string \<rightharpoonup> subject"

text \<open>What \<open>respondJSON\<close> is given to marshal, one constructor per payload type of the source.\<close>

datatype payload =
  Text string
  | MessagesOf "msgPost list"
  | ThreadsOf "Thread list"
  | IdOf int
  | ErrorOf string

text \<open>
  A handler either writes a response (status code and payload) or panics: indexing or
  slicing out of range is a run-time panic in Go, which \<open>net/http\<close> recovers by dropping
  the connection; the deferred unlocks run, the map is as it was.
\<close>

datatype response = Respond nat payload | Panic

definition StatusOK :: nat where "StatusOK = 200"
definition StatusBadRequest :: nat where "StatusBadRequest = 400"
definition StatusInternalServerError :: nat where "StatusInternalServerError = 500"

definition respondJSON :: "nat \<Rightarrow> payload \<Rightarrow> response" where
  "respondJSON status p = Respond status p"

definition respondError :: "nat \<Rightarrow> string \<Rightarrow> response" where
  "respondError code message = respondJSON code (ErrorOf message)"

subsection \<open>Library functions the handlers call\<close>

text \<open>
  \<open>strings.ToLower\<close> on the bytes the router lets through: the route pattern of a
  channel is \<open>[A-Z,a-z,0-9,-]+\<close>, so only ASCII letters are ever mapped.
\<close>

definition upperByte :: "char \<Rightarrow> bool" where
  "upperByte c = (65 \<le> (of_char c :: nat) \<and> (of_char c :: nat) \<le> 90)"

definition toLowerByte :: "char \<Rightarrow> char" where
  "toLowerByte c = (if upperByte c then char_of ((of_char c :: nat) + 32) else c)"

definition ToLower :: "string \<Rightarrow> string" where
  "ToLower s = map toLowerByte s"

text \<open>
  \<open>strconv.Atoi\<close> with a 64-bit \<open>int\<close>: an optional sign, then one or more decimal
  digits, and a value within the range of the type; anything else is an error (\<open>None\<close>).
\<close>

definition digitOf :: "char \<Rightarrow> int option" where
  "digitOf c =
     (let n = (of_char c :: int) in if 48 \<le> n \<and> n \<le> 57 then Some (n - 48) else None)"

fun digitsFrom :: "int \<Rightarrow> string \<Rightarrow> int option" where
  "digitsFrom n [] = Some n"
| "digitsFrom n (c # cs) =
     (case digitOf c of None \<Rightarrow> None | Some d \<Rightarrow> digitsFrom (n * 10 + d) cs)"

definition Atoi :: "string \<Rightarrow> int option" where
  "Atoi s =
     (case s of
        [] \<Rightarrow> None
      | c # cs \<Rightarrow>
          (let neg = (c = CHR ''-'');
               ds = (if c = CHR ''-'' \<or> c = CHR ''+'' then cs else s)
           in if ds = [] then None
              else (case digitsFrom 0 ds of
                      None \<Rightarrow> None
                    | Some n \<Rightarrow>
                        (let v = (if neg then - n else n)
                         in if - (2 ^ 63) \<le> v \<and> v \<le> 2 ^ 63 - 1 then Some v else None))))"

subsection \<open>The handlers\<close>

text \<open>
  \<open>getMessage\<close>: \<open>channel\<close> is the route variable, \<open>key\<close> the text of the query
  parameter \<open>last_id\<close> (empty when absent).
\<close>

definition getMessage :: "string \<Rightarrow> string \<Rightarrow> liveMessages \<Rightarrow> response \<times> liveMessages" where
  "getMessage channel0 key lm =
     (let channel = ToLower channel0 in
      case (if key = [] then Some 0 else Atoi key) of
        None \<Rightarrow> (respondJSON StatusBadRequest (Text ''last_id should be an integer''), lm)
      | Some id' \<Rightarrow>
          (case lm channel of
             Some subject \<Rightarrow>
               if id' \<ge> int (length (Messages subject))
               then (respondJSON StatusBadRequest (Text ''No new message after last_id''), lm)
               else if id' < 0 then (Panic, lm)
               else (respondJSON StatusOK (MessagesOf (drop (nat id') (Messages subject))), lm)
           | None \<Rightarrow>
               (respondJSON StatusBadRequest (Text ''Sorry No such channel exist!''), lm)))"

text \<open>\<open>getThreads\<close>: \<open>message_id\<close> is the text of the route variable.\<close>

definition getThreads :: "string \<Rightarrow> string \<Rightarrow> liveMessages \<Rightarrow> response \<times> liveMessages" where
  "getThreads channel0 message_id lm =
     (let channel = ToLower channel0 in
      case Atoi message_id of
        None \<Rightarrow> (respondJSON StatusBadRequest (Text ''message_id should be an integer''), lm)
      | Some id' \<Rightarrow>
          (case lm channel of
             Some subject \<Rightarrow>
               if id' \<ge> int (length (Messages subject))
               then (respondJSON StatusBadRequest (Text ''No message for the provided id''), lm)
               else if id' < 0 then (Panic, lm)
               else (respondJSON StatusOK (ThreadsOf (Threads (Messages subject ! nat id'))), lm)
           | None \<Rightarrow>
               (respondJSON StatusBadRequest (Text ''Sorry No such channel exist!''), lm)))"

text \<open>
  \<open>postMessage\<close> has two blocks after its validation. The first (lines 127 to 137)
  installs an empty subject for a channel that has none, under \<open>globalMutex\<close>. The second
  (lines 138 to 150) takes the channel's own lock, assigns the id, appends and replies. No
  lock that a reader takes is held from the first block to the second.
\<close>

definition createSubject :: "string \<Rightarrow> liveMessages \<Rightarrow> liveMessages" where
  "createSubject channel lm =
     (if lm channel = None then lm(channel \<mapsto> \<lparr>Messages = [], title = []\<rparr>) else lm)"

definition appendUnderLock ::
  "string \<Rightarrow> msgPost \<Rightarrow> liveMessages \<Rightarrow> response \<times> liveMessages" where
  "appendUnderLock channel mesg lm1 =
     (case lm1 channel of
        None \<Rightarrow> (Panic, lm1)
      | Some subject \<Rightarrow>
          (let id' = int (length (Messages subject)) + 1;
               mesg1 = mesg\<lparr>Id := id'\<rparr>
           in (respondJSON StatusOK (IdOf id'),
               lm1(channel \<mapsto> subject\<lparr>Messages := Messages subject @ [mesg1]\<rparr>))))"

text \<open>
  \<open>postMessage\<close>: \<open>body\<close> is what the JSON decoder made of the request body, the error
  text on the left or the decoded \<open>msgPost\<close> on the right. The decoder fills every field
  the body names, \<open>id\<close> and \<open>thread\<close> included; the handler overwrites \<open>Id\<close> only.
\<close>

definition postMessage ::
  "string \<Rightarrow> string + msgPost \<Rightarrow> liveMessages \<Rightarrow> response \<times> liveMessages" where
  "postMessage channel body lm =
     (case body of
        Inl err \<Rightarrow> (respondError StatusInternalServerError err, lm)
      | Inr mesg \<Rightarrow>
          if Username mesg \<noteq> [] \<and> Message mesg \<noteq> [] then
            appendUnderLock channel mesg (createSubject channel lm)
          else (respondJSON StatusBadRequest (Text ''Empty username or message!''), lm))"

text \<open>\<open>postThread\<close>: the message id is parsed first, then the body is decoded.\<close>

definition postThread ::
  "string \<Rightarrow> string \<Rightarrow> string + Thread \<Rightarrow> liveMessages \<Rightarrow> response \<times> liveMessages" where
  "postThread channel message_id body lm =
     (case Atoi message_id of
        None \<Rightarrow> (respondJSON StatusBadRequest (Text ''message_id should be an integer''), lm)
      | Some id' \<Rightarrow>
          (case body of
             Inl err \<Rightarrow> (respondError StatusInternalServerError err, lm)
           | Inr mesg \<Rightarrow>
               if ThreadUsername mesg \<noteq> [] \<and> ThreadMessage mesg \<noteq> [] then
                 (case lm channel of
                    None \<Rightarrow>
                      (respondJSON StatusBadRequest (Text ''Provided channel does not exist!''), lm)
                  | Some subject \<Rightarrow>
                      if id' \<ge> int (length (Messages subject))
                      then (respondJSON StatusBadRequest
                              (Text ''Provided messageId does not exist!''), lm)
                      else if id' < 0 then (Panic, lm)
                      else
                        (let m = Messages subject ! nat id';
                             m1 = m\<lparr>Threads := Threads m @ [mesg]\<rparr>
                         in (respondJSON StatusOK (IdOf id'),
                             lm(channel \<mapsto> subject\<lparr>Messages := (Messages subject)[nat id' := m1]\<rparr>))))
               else (respondJSON StatusBadRequest (Text ''Empty username or message!''), lm)))"

subsection \<open>Requests served one after another\<close>

datatype request =
  GetMessage string string
  | GetThreads string string
  | PostMessage string "string + msgPost"
  | PostThread string string "string + Thread"

fun handle :: "request \<Rightarrow> liveMessages \<Rightarrow> response \<times> liveMessages" where
  "handle (GetMessage channel key) lm = getMessage channel key lm"
| "handle (GetThreads channel message_id) lm = getThreads channel message_id lm"
| "handle (PostMessage channel body) lm = postMessage channel body lm"
| "handle (PostThread channel message_id body) lm = postThread channel message_id body lm"

text \<open>\<open>main\<close> starts from \<open>make(map[string]*subject)\<close>, the empty map.\<close>

definition initial :: liveMessages where
  "initial = Map.empty"

fun serve :: "request list \<Rightarrow> liveMessages \<Rightarrow> liveMessages" where
  "serve [] lm = lm"
| "serve (r # rs) lm = serve rs (snd (handle r lm))"

text \<open>The message log of a channel, empty for a channel that has no subject.\<close>

definition logOf :: "liveMessages \<Rightarrow> string \<Rightarrow> msgPost list" where
  "logOf lm channel = (case lm channel of None \<Rightarrow> [] | Some subject \<Rightarrow> Messages subject)"

text \<open>A request that appends a message to \<open>channel\<close>: decoded, with both fields filled.\<close>

fun appends :: "string \<Rightarrow> request \<Rightarrow> bool" where
  "appends channel (PostMessage c (Inr mesg)) =
     (c = channel \<and> Username mesg \<noteq> [] \<and> Message mesg \<noteq> [])"
| "appends channel _ = False"

section \<open>Facts about the handlers\<close>

subsection \<open>The effect of each handler on a channel's log\<close>


lemma postMessage_accepts:
  assumes "Username mesg \<noteq> []" and "Message mesg \<noteq> []"
  shows "postMessage channel (Inr mesg) lm =
           (respondJSON StatusOK (IdOf (int (length (logOf lm channel)) + 1)),
            lm(channel \<mapsto>
              (case lm channel of None \<Rightarrow> \<lparr>Messages = [], title = []\<rparr> | Some s \<Rightarrow> s)
              \<lparr>Messages := logOf lm channel @ [mesg\<lparr>Id := int (length (logOf lm channel)) + 1\<rparr>]\<rparr>))"
  using assms by (cases "lm channel") (simp_all add: postMessage_def createSubject_def appendUnderLock_def logOf_def Let_def)

lemma postMessage_rejects:
  "\<not> (Username mesg \<noteq> [] \<and> Message mesg \<noteq> []) \<Longrightarrow> snd (postMessage channel (Inr mesg) lm) = lm"
  by (auto simp add: postMessage_def createSubject_def appendUnderLock_def)

lemma postMessage_undecoded: "snd (postMessage channel (Inl err) lm) = lm"
  by (simp add: postMessage_def createSubject_def appendUnderLock_def)

lemma getMessage_frame: "snd (getMessage channel key lm) = lm"
  by (simp add: getMessage_def Let_def split: option.splits)

lemma getThreads_frame: "snd (getThreads channel message_id lm) = lm"
  by (simp add: getThreads_def Let_def split: option.splits)

lemma logOf_postMessage:
  "logOf (snd (postMessage channel body lm)) c =
     (if appends c (PostMessage channel body)
      then logOf lm c @ [(projr body)\<lparr>Id := int (length (logOf lm c)) + 1\<rparr>]
      else logOf lm c)"
proof (cases body)
  case (Inl err)
  then show ?thesis by (simp add: postMessage_undecoded)
next
  case (Inr mesg)
  show ?thesis
  proof (cases "Username mesg \<noteq> [] \<and> Message mesg \<noteq> []")
    case True
    then show ?thesis using Inr
      by (simp add: postMessage_accepts) (simp add: logOf_def)
  next
    case False
    then show ?thesis using Inr postMessage_rejects[OF False]
      by auto
  qed
qed

lemma Id_thread_update:
  "i < length xs \<Longrightarrow> map Id (xs[i := (xs ! i)\<lparr>Threads := ts\<rparr>]) = map Id xs"
  by (simp add: map_update list_update_same_conv)

lemma logOf_postThread_other:
  "c \<noteq> channel \<Longrightarrow> logOf (snd (postThread channel message_id body lm)) c = logOf lm c"
  by (simp add: postThread_def logOf_def Let_def split: option.splits sum.splits)

lemma logOf_postThread_length:
  "length (logOf (snd (postThread channel message_id body lm)) c) = length (logOf lm c)"
  by (cases "c = channel")
     (simp_all add: postThread_def logOf_def Let_def split: option.splits sum.splits)

lemma logOf_postThread_Id:
  "map Id (logOf (snd (postThread channel message_id body lm)) c) = map Id (logOf lm c)"
  by (cases "c = channel")
     (auto simp add: postThread_def logOf_def Let_def Id_thread_update split: option.splits sum.splits)

lemma length_logOf_handle:
  "length (logOf (snd (handle r lm)) c) = length (logOf lm c) + (if appends c r then 1 else 0)"
  by (cases r) (simp_all add: getMessage_frame getThreads_frame logOf_postMessage logOf_postThread_length)

lemma Id_logOf_handle:
  "map Id (logOf (snd (handle r lm)) c) =
     map Id (logOf lm c) @ (if appends c r then [int (length (logOf lm c)) + 1] else [])"
  by (cases r) (simp_all add: getMessage_frame getThreads_frame logOf_postMessage logOf_postThread_Id)

lemma Id_logOf_serve:
  "map Id (logOf (serve rs lm) c) =
     map Id (logOf lm c) @
       [int (length (logOf lm c)) + 1 .. int (length (logOf lm c)) + int (length (filter (appends c) rs))]"
proof (induction rs arbitrary: lm)
  case Nil
  then show ?case by simp
next
  case (Cons r rs)
  show ?case
  proof (cases "appends c r")
    case True
    have "[int (length (logOf lm c)) + 1 .. int (length (logOf lm c)) + 1 + int (length (filter (appends c) rs))]
          = (int (length (logOf lm c)) + 1) #
            [int (length (logOf lm c)) + 1 + 1 .. int (length (logOf lm c)) + 1 + int (length (filter (appends c) rs))]"
      by (rule upto_rec1) simp
    with True show ?thesis
      by (simp add: Cons.IH Id_logOf_handle length_logOf_handle add.commute add.left_commute)
  next
    case False
    then show ?thesis
      by (simp add: Cons.IH Id_logOf_handle length_logOf_handle)
  qed
qed

lemma length_logOf_serve:
  "length (logOf (serve rs lm) c) = length (logOf lm c) + length (filter (appends c) rs)"
  by (induction rs arbitrary: lm) (simp_all add: length_logOf_handle)

lemma logOf_initial: "logOf initial c = []"
  by (simp add: logOf_def initial_def)

lemma ids_dense_serve:
  "map Id (logOf (serve rs initial) c) = [1 .. int (length (logOf (serve rs initial) c))]"
  by (simp add: Id_logOf_serve length_logOf_serve logOf_initial)

lemma absent_handle:
  "snd (handle r lm) c = None \<longleftrightarrow> lm c = None \<and> \<not> appends c r"
proof (cases r)
  case (PostMessage channel body)
  show ?thesis
  proof (cases body)
    case (Inl err)
    then show ?thesis using PostMessage by (simp add: postMessage_undecoded)
  next
    case (Inr mesg)
    then show ?thesis using PostMessage
      by (cases "Username mesg \<noteq> [] \<and> Message mesg \<noteq> []")
         (auto simp add: postMessage_accepts postMessage_rejects)
  qed
next
  case (PostThread channel message_id body)
  then show ?thesis
    by (auto simp add: postThread_def Let_def split: option.splits sum.splits if_splits)
qed (simp_all add: getMessage_frame getThreads_frame)

lemma absent_serve:
  "serve rs lm c = None \<longleftrightarrow> lm c = None \<and> filter (appends c) rs = []"
  by (induction rs arbitrary: lm) (auto simp add: absent_handle)

lemma present_serve_nonempty:
  assumes "serve rs initial c = Some subject"
  shows "Messages subject \<noteq> []"
proof -
  from assms have "filter (appends c) rs \<noteq> []"
    using absent_serve [of rs initial c] by (auto simp add: initial_def)
  then have "length (logOf (serve rs initial) c) \<noteq> 0"
    by (simp add: length_logOf_serve logOf_initial)
  with assms show ?thesis by (simp add: logOf_def)
qed

lemma postMessage_reply:
  assumes "Username mesg \<noteq> []" and "Message mesg \<noteq> []"
  shows "fst (postMessage channel (Inr mesg) lm) =
           respondJSON StatusOK (IdOf (int (length (logOf lm channel)) + 1))"
  using assms by (simp add: postMessage_accepts)

subsection \<open>Dense ids: a suffix of the log is a range of ids\<close>

lemma dense_nth:
  assumes "map Id xs = [1 .. int (length xs)]" and "i < length xs"
  shows "Id (xs ! i) = int i + 1"
proof -
  have "Id (xs ! i) = map Id xs ! i"
    using assms(2) by simp
  also have "\<dots> = [1 .. int (length xs)] ! i"
    by (simp add: assms(1))
  also have "\<dots> = 1 + int i"
    using assms(2) by simp
  finally show ?thesis by simp
qed



subsection \<open>Lowercasing and parsing\<close>

lemma toLowerByte_upper: "upperByte c \<Longrightarrow> toLowerByte c \<noteq> c"
proof
  assume u: "upperByte c" and e: "toLowerByte c = c"
  from u e have "char_of ((of_char c :: nat) + 32) = c"
    by (simp add: toLowerByte_def)
  then have "(of_char (char_of ((of_char c :: nat) + 32) :: char) :: nat) = of_char c"
    by simp
  moreover from u have "(of_char c :: nat) + 32 < 256"
    by (simp add: upperByte_def)
  ultimately show False
    by (simp add: of_char_of)
qed

lemma ToLower_changes: "\<exists>c \<in> set s. upperByte c \<Longrightarrow> ToLower s \<noteq> s"
proof -
  assume "\<exists>c \<in> set s. upperByte c"
  then obtain c where c: "c \<in> set s" "upperByte c" by blast
  then have "toLowerByte c \<noteq> c" by (simp add: toLowerByte_upper)
  with c(1) show ?thesis
    by (auto simp add: ToLower_def map_eq_conv [of toLowerByte s id, simplified])
qed

lemma ToLower_fixed: "\<forall>c \<in> set s. \<not> upperByte c \<Longrightarrow> ToLower s = s"
  by (simp add: ToLower_def toLowerByte_def map_idI)

lemma lower_x: "ToLower ''x'' = ''x''" by code_simp
lemma lower_Alpha: "ToLower ''Alpha'' = ''alpha''" by code_simp
lemma Atoi_0: "Atoi ''0'' = Some 0" by (simp add: Atoi_def digitOf_def)
lemma Atoi_1: "Atoi ''1'' = Some 1" by (simp add: Atoi_def digitOf_def)
lemma Atoi_2: "Atoi ''2'' = Some 2" by (simp add: Atoi_def digitOf_def)
lemma Atoi_minus_1: "Atoi ''-1'' = Some (- 1)" by (simp add: Atoi_def digitOf_def)

lemma lower_never_created: "ToLower ''never-created'' = ''never-created''"
  by code_simp

subsection \<open>Which key a handler looks up\<close>

lemma getMessage_absent:
  assumes "lm (ToLower channel) = None" and "(if key = [] then Some 0 else Atoi key) = Some afterId"
  shows "fst (getMessage channel key lm) =
           respondJSON StatusBadRequest (Text ''Sorry No such channel exist!'')"
  using assms by (simp add: getMessage_def)

lemma getThreads_absent:
  assumes "lm (ToLower channel) = None" and "Atoi message_id = Some i"
  shows "fst (getThreads channel message_id lm) =
           respondJSON StatusBadRequest (Text ''Sorry No such channel exist!'')"
  using assms by (simp add: getThreads_def)

lemma getMessage_other_key:
  "lm' (ToLower channel) = lm (ToLower channel) \<Longrightarrow>
     fst (getMessage channel key lm') = fst (getMessage channel key lm)"
  by (simp add: getMessage_def Let_def split: option.splits)

lemma getThreads_other_key:
  "lm' (ToLower channel) = lm (ToLower channel) \<Longrightarrow>
     fst (getThreads channel message_id lm') = fst (getThreads channel message_id lm)"
  by (simp add: getThreads_def Let_def split: option.splits)

lemma postMessage_other_key:
  "c \<noteq> channel \<Longrightarrow> snd (postMessage channel body lm) c = lm c"
  by (simp add: postMessage_def createSubject_def appendUnderLock_def Let_def split: sum.splits option.splits)

subsection \<open>How \<open>getThreads\<close> uses the message id as an index\<close>

lemma getThreads_addresses_next_id:
  assumes "serve rs initial (ToLower channel) = Some subject"
    and "Atoi message_id = Some i" and "0 \<le> i" and "i < int (length (Messages subject))"
  shows "fst (getThreads channel message_id (serve rs initial)) =
           respondJSON StatusOK (ThreadsOf (Threads (Messages subject ! nat i))) \<and>
         Id (Messages subject ! nat i) = i + 1"
proof -
  have log: "logOf (serve rs initial) (ToLower channel) = Messages subject"
    using assms(1) by (simp add: logOf_def)
  have dense: "map Id (Messages subject) = [1 .. int (length (Messages subject))]"
    using ids_dense_serve [of rs "ToLower channel"] by (simp add: log)
  have "nat i < length (Messages subject)"
    using assms(3,4) by simp
  then have "Id (Messages subject ! nat i) = int (nat i) + 1"
    by (rule dense_nth [OF dense])
  then show ?thesis
    using assms by (simp add: getThreads_def)
qed

lemma getThreads_refuses_newest:
  assumes "serve rs initial (ToLower channel) = Some subject"
    and "Atoi message_id = Some (int (length (Messages subject)))"
  shows "fst (getThreads channel message_id (serve rs initial)) =
           respondJSON StatusBadRequest (Text ''No message for the provided id'') \<and>
         Id (last (Messages subject)) = int (length (Messages subject))"
proof -
  have log: "logOf (serve rs initial) (ToLower channel) = Messages subject"
    using assms(1) by (simp add: logOf_def)
  have dense: "map Id (Messages subject) = [1 .. int (length (Messages subject))]"
    using ids_dense_serve [of rs "ToLower channel"] by (simp add: log)
  have ne: "Messages subject \<noteq> []"
    using assms(1) by (rule present_serve_nonempty)
  then have "length (Messages subject) - 1 < length (Messages subject)"
    by simp
  then have "Id (Messages subject ! (length (Messages subject) - 1)) =
               int (length (Messages subject) - 1) + 1"
    by (rule dense_nth [OF dense])
  moreover from ne have "int (length (Messages subject) - 1) + 1 = int (length (Messages subject))"
    by (cases "Messages subject") simp_all
  ultimately have "Id (last (Messages subject)) = int (length (Messages subject))"
    using ne by (simp add: last_conv_nth)
  then show ?thesis
    using assms by (simp add: getThreads_def)
qed

subsection \<open>What an accepted post stores\<close>

text \<open>
  The message appended is the decoded body with its \<open>Id\<close> replaced: username, message
  and threads are the body's. For a body without a \<open>thread\<close> field the thread list is
  empty.
\<close>

lemma postMessage_appends:
  assumes "Username mesg \<noteq> []" and "Message mesg \<noteq> []"
  shows "fst (postMessage channel (Inr mesg) lm) =
           respondJSON StatusOK (IdOf (int (length (logOf lm channel)) + 1)) \<and>
         logOf (snd (postMessage channel (Inr mesg) lm)) channel =
           logOf lm channel @
             [\<lparr>Id = int (length (logOf lm channel)) + 1, Username = Username mesg,
               Message = Message mesg, Threads = Threads mesg\<rparr>]"
proof -
  have "appends channel (PostMessage channel (Inr mesg))"
    using assms by simp
  then have "logOf (snd (postMessage channel (Inr mesg) lm)) channel =
           logOf lm channel @ [mesg\<lparr>Id := int (length (logOf lm channel)) + 1\<rparr>]"
    by (simp add: logOf_postMessage)
  then show ?thesis using assms by (simp add: postMessage_reply)
qed

lemma postMessage_appends_plain:
  assumes "Username mesg \<noteq> []" and "Message mesg \<noteq> []" and "Threads mesg = []"
  shows "fst (postMessage channel (Inr mesg) lm) =
           respondJSON StatusOK (IdOf (int (length (logOf lm channel)) + 1)) \<and>
         logOf (snd (postMessage channel (Inr mesg) lm)) channel =
           logOf lm channel @
             [\<lparr>Id = int (length (logOf lm channel)) + 1, Username = Username mesg,
               Message = Message mesg, Threads = []\<rparr>]"
  using postMessage_appends [OF assms(1,2), of channel lm] assms(3) by simp

section \<open>The claims\<close>

text \<open>
  C1. Message ids are dense. Serve any list of requests from the empty map, in any order
  and with any mix of reads, thread posts, rejected and accepted message posts. If \<open>N\<close>
  of them are accepted message posts to a channel, that channel's log has \<open>N\<close> messages
  and their ids, in log order, are \<open>1, 2, ..., N\<close>: no gap, no duplicate.
\<close>

theorem sequential_ids:
  "length (logOf (serve rs initial) channel) = length (filter (appends channel) rs) \<and>
   map Id (logOf (serve rs initial) channel) = [1 .. int (length (filter (appends channel) rs))] \<and>
   distinct (map Id (logOf (serve rs initial) channel))"
proof -
  have ids: "map Id (logOf (serve rs initial) channel) = [1 .. int (length (filter (appends channel) rs))]"
    by (simp add: Id_logOf_serve logOf_initial)
  show ?thesis
    by (simp add: ids length_logOf_serve logOf_initial)
qed

text \<open>
  C2. The claim has an accepted post append one message with the id \<open>count_before + 1\<close>,
  the given author and body, and an empty thread sequence. For a body without a
  \<open>thread\<close> field the handler does so (\<open>postMessage_appends_plain\<close>). A body that names
  a \<open>thread\<close> field is decoded into the struct that is stored, of which only \<open>Id\<close> is
  overwritten: the message enters the log with the caller's threads. Even a thread with
  an empty username and message is stored this way, one that \<open>postThread\<close> refuses.
\<close>

theorem postMessage_stores_request_threads:
  "logOf (snd (postMessage ''x''
      (Inr \<lparr>Id = 0, Username = ''a'', Message = ''hi'',
             Threads = [\<lparr>ThreadUsername = ''c'', ThreadMessage = ''reply''\<rparr>]\<rparr>) initial)) ''x'' =
     [\<lparr>Id = 1, Username = ''a'', Message = ''hi'',
       Threads = [\<lparr>ThreadUsername = ''c'', ThreadMessage = ''reply''\<rparr>]\<rparr>] \<and>
   logOf (snd (postMessage ''x''
      (Inr \<lparr>Id = 0, Username = ''a'', Message = ''hi'',
             Threads = [\<lparr>ThreadUsername = [], ThreadMessage = []\<rparr>]\<rparr>) initial)) ''x'' =
     [\<lparr>Id = 1, Username = ''a'', Message = ''hi'',
       Threads = [\<lparr>ThreadUsername = [], ThreadMessage = []\<rparr>]\<rparr>] \<and>
   fst (postThread ''x'' ''0'' (Inr \<lparr>ThreadUsername = [], ThreadMessage = []\<rparr>)
          (snd (postMessage ''x''
             (Inr \<lparr>Id = 0, Username = ''a'', Message = ''hi'', Threads = []\<rparr>) initial))) =
     Respond 400 (Text ''Empty username or message!'')"
  by (simp add: postMessage_def createSubject_def appendUnderLock_def postThread_def initial_def
      logOf_def Atoi_0 respondJSON_def StatusBadRequest_def)




text \<open>
  C4. The claim reads the message id as an id: \<open>getThreads\<close> should refuse exactly the
  ids outside \<open>1..count\<close> and answer with the threads of the message that has the id.
  The handler uses the number as a slice index instead. With two messages in channel
  \<open>x\<close> and one thread on the second, \<open>thread/2\<close> is refused although message 2 exists,
  \<open>thread/1\<close> answers with the threads of message 2, and \<open>thread/0\<close> answers with the
  (empty) threads of message 1.
\<close>

theorem getThreads_off_by_one:
  "logOf (serve [PostMessage ''x'' (Inr \<lparr>Id = 0, Username = ''a'', Message = ''hi'', Threads = []\<rparr>),
                 PostMessage ''x'' (Inr \<lparr>Id = 0, Username = ''b'', Message = ''yo'', Threads = []\<rparr>),
                 PostThread ''x'' ''1'' (Inr \<lparr>ThreadUsername = ''c'', ThreadMessage = ''reply''\<rparr>)]
            initial) ''x'' =
     [\<lparr>Id = 1, Username = ''a'', Message = ''hi'', Threads = []\<rparr>,
      \<lparr>Id = 2, Username = ''b'', Message = ''yo'',
       Threads = [\<lparr>ThreadUsername = ''c'', ThreadMessage = ''reply''\<rparr>]\<rparr>] \<and>
   fst (getThreads ''x'' ''2''
          (serve [PostMessage ''x'' (Inr \<lparr>Id = 0, Username = ''a'', Message = ''hi'', Threads = []\<rparr>),
                  PostMessage ''x'' (Inr \<lparr>Id = 0, Username = ''b'', Message = ''yo'', Threads = []\<rparr>),
                  PostThread ''x'' ''1'' (Inr \<lparr>ThreadUsername = ''c'', ThreadMessage = ''reply''\<rparr>)]
             initial)) =
     Respond 400 (Text ''No message for the provided id'') \<and>
   fst (getThreads ''x'' ''1''
          (serve [PostMessage ''x'' (Inr \<lparr>Id = 0, Username = ''a'', Message = ''hi'', Threads = []\<rparr>),
                  PostMessage ''x'' (Inr \<lparr>Id = 0, Username = ''b'', Message = ''yo'', Threads = []\<rparr>),
                  PostThread ''x'' ''1'' (Inr \<lparr>ThreadUsername = ''c'', ThreadMessage = ''reply''\<rparr>)]
             initial)) =
     Respond 200 (ThreadsOf [\<lparr>ThreadUsername = ''c'', ThreadMessage = ''reply''\<rparr>]) \<and>
   fst (getThreads ''x'' ''0''
          (serve [PostMessage ''x'' (Inr \<lparr>Id = 0, Username = ''a'', Message = ''hi'', Threads = []\<rparr>),
                  PostMessage ''x'' (Inr \<lparr>Id = 0, Username = ''b'', Message = ''yo'', Threads = []\<rparr>),
                  PostThread ''x'' ''1'' (Inr \<lparr>ThreadUsername = ''c'', ThreadMessage = ''reply''\<rparr>)]
             initial)) =
     Respond 200 (ThreadsOf [])"
  by (simp add: postMessage_def createSubject_def appendUnderLock_def postThread_def getThreads_def initial_def logOf_def
      respondJSON_def StatusOK_def StatusBadRequest_def lower_x Atoi_0 Atoi_1 Atoi_2)

text \<open>
  C5. The same index reading in \<open>postThread\<close>. With one message in channel \<open>x\<close>, a
  thread posted to message id 1 is refused with "Provided messageId does not exist!" and
  the map is unchanged, although message 1 exists; posted to id 0, which no message has,
  it is accepted and lands on message 1.
\<close>

theorem postThread_off_by_one:
  "logOf (serve [PostMessage ''x'' (Inr \<lparr>Id = 0, Username = ''a'', Message = ''hi'', Threads = []\<rparr>)]
            initial) ''x'' =
     [\<lparr>Id = 1, Username = ''a'', Message = ''hi'', Threads = []\<rparr>] \<and>
   postThread ''x'' ''1'' (Inr \<lparr>ThreadUsername = ''c'', ThreadMessage = ''reply''\<rparr>)
     (serve [PostMessage ''x'' (Inr \<lparr>Id = 0, Username = ''a'', Message = ''hi'', Threads = []\<rparr>)]
        initial) =
     (Respond 400 (Text ''Provided messageId does not exist!''),
      serve [PostMessage ''x'' (Inr \<lparr>Id = 0, Username = ''a'', Message = ''hi'', Threads = []\<rparr>)]
        initial) \<and>
   fst (postThread ''x'' ''0'' (Inr \<lparr>ThreadUsername = ''c'', ThreadMessage = ''reply''\<rparr>)
     (serve [PostMessage ''x'' (Inr \<lparr>Id = 0, Username = ''a'', Message = ''hi'', Threads = []\<rparr>)]
        initial)) = Respond 200 (IdOf 0) \<and>
   logOf (snd (postThread ''x'' ''0'' (Inr \<lparr>ThreadUsername = ''c'', ThreadMessage = ''reply''\<rparr>)
     (serve [PostMessage ''x'' (Inr \<lparr>Id = 0, Username = ''a'', Message = ''hi'', Threads = []\<rparr>)]
        initial))) ''x'' =
     [\<lparr>Id = 1, Username = ''a'', Message = ''hi'',
       Threads = [\<lparr>ThreadUsername = ''c'', ThreadMessage = ''reply''\<rparr>]\<rparr>]"
  by (simp add: postMessage_def createSubject_def appendUnderLock_def postThread_def initial_def logOf_def
      respondJSON_def StatusOK_def StatusBadRequest_def Atoi_0 Atoi_1)

text \<open>
  C6. A negative message id is a well-formed integer for \<open>Atoi\<close>, passes the only test
  the handlers make (\<open>id >= len\<close>) and is then used as an index: \<open>getThreads\<close> and
  \<open>postThread\<close> panic on \<open>-1\<close> in an existing channel, where the claim promises a
  value-or-failure result and no index out of bounds. \<open>getMessage\<close> slices the log at
  \<open>last_id\<close> behind the same test and panics on \<open>-1\<close> as well.
\<close>

theorem negative_message_id_panics:
  "Atoi ''-1'' = Some (- 1) \<and>
   getMessage ''x'' ''-1''
     (serve [PostMessage ''x'' (Inr \<lparr>Id = 0, Username = ''a'', Message = ''hi'', Threads = []\<rparr>)]
        initial) =
     (Panic,
      serve [PostMessage ''x'' (Inr \<lparr>Id = 0, Username = ''a'', Message = ''hi'', Threads = []\<rparr>)]
        initial) \<and>
   getThreads ''x'' ''-1''
     (serve [PostMessage ''x'' (Inr \<lparr>Id = 0, Username = ''a'', Message = ''hi'', Threads = []\<rparr>)]
        initial) =
     (Panic,
      serve [PostMessage ''x'' (Inr \<lparr>Id = 0, Username = ''a'', Message = ''hi'', Threads = []\<rparr>)]
        initial) \<and>
   postThread ''x'' ''-1'' (Inr \<lparr>ThreadUsername = ''c'', ThreadMessage = ''reply''\<rparr>)
     (serve [PostMessage ''x'' (Inr \<lparr>Id = 0, Username = ''a'', Message = ''hi'', Threads = []\<rparr>)]
        initial) =
     (Panic,
      serve [PostMessage ''x'' (Inr \<lparr>Id = 0, Username = ''a'', Message = ''hi'', Threads = []\<rparr>)]
        initial)"
  by (simp add: postMessage_def createSubject_def appendUnderLock_def postThread_def getThreads_def getMessage_def initial_def lower_x
      Atoi_minus_1)

text \<open>
  C7 (as amended). The write handlers use the channel name as given, the read handlers
  lowercase it. After an accepted post to \<open>channel\<close>, a thread post under the same name
  finds the channel. If the name has an uppercase letter, the message is stored under the
  name as given, the key the reads look up is another one and the post did not touch it, so
  a read under the same name answers what it answered before the post: "no such channel"
  when nothing is stored under the lowercased name. If the name has no uppercase letter,
  a read under it answers with the log, the new message last.
\<close>

theorem case_asymmetry:
  assumes "Username mesg \<noteq> []" and "Message mesg \<noteq> []"
    and "ThreadUsername t \<noteq> []" and "ThreadMessage t \<noteq> []"
  shows "fst (postThread channel ''0'' (Inr t) (snd (postMessage channel (Inr mesg) lm))) =
            respondJSON StatusOK (IdOf 0) \<and>
         ((\<exists>c \<in> set channel. upperByte c) \<longrightarrow>
            logOf (snd (postMessage channel (Inr mesg) lm)) channel =
              logOf lm channel @ [mesg\<lparr>Id := int (length (logOf lm channel)) + 1\<rparr>] \<and>
            ToLower channel \<noteq> channel \<and>
            snd (postMessage channel (Inr mesg) lm) (ToLower channel) = lm (ToLower channel) \<and>
            fst (getMessage channel key (snd (postMessage channel (Inr mesg) lm))) =
              fst (getMessage channel key lm) \<and>
            fst (getThreads channel message_id (snd (postMessage channel (Inr mesg) lm))) =
              fst (getThreads channel message_id lm) \<and>
            (lm (ToLower channel) = None \<longrightarrow>
               fst (getMessage channel [] (snd (postMessage channel (Inr mesg) lm))) =
                 respondJSON StatusBadRequest (Text ''Sorry No such channel exist!''))) \<and>
         ((\<forall>c \<in> set channel. \<not> upperByte c) \<longrightarrow>
            fst (getMessage channel [] (snd (postMessage channel (Inr mesg) lm))) =
              respondJSON StatusOK
                (MessagesOf (logOf lm channel @
                   [mesg\<lparr>Id := int (length (logOf lm channel)) + 1\<rparr>])))"
proof (intro conjI impI)
  show "fst (postThread channel ''0'' (Inr t) (snd (postMessage channel (Inr mesg) lm))) =
            respondJSON StatusOK (IdOf 0)"
    using assms by (simp add: postThread_def postMessage_accepts Atoi_0 Let_def)
  have ap: "appends channel (PostMessage channel (Inr mesg))"
    using assms by simp
  then show stored: "logOf (snd (postMessage channel (Inr mesg) lm)) channel =
              logOf lm channel @ [mesg\<lparr>Id := int (length (logOf lm channel)) + 1\<rparr>]"
    by (simp add: logOf_postMessage)
  {
    assume up: "\<exists>c \<in> set channel. upperByte c"
    then show ne: "ToLower channel \<noteq> channel"
      by (rule ToLower_changes)
    then show same: "snd (postMessage channel (Inr mesg) lm) (ToLower channel) = lm (ToLower channel)"
      by (rule postMessage_other_key)
    from same show "fst (getMessage channel key (snd (postMessage channel (Inr mesg) lm))) =
              fst (getMessage channel key lm)"
      by (rule getMessage_other_key)
    from same show "fst (getThreads channel message_id (snd (postMessage channel (Inr mesg) lm))) =
              fst (getThreads channel message_id lm)"
      by (rule getThreads_other_key)
    assume "lm (ToLower channel) = None"
    with same have "snd (postMessage channel (Inr mesg) lm) (ToLower channel) = None"
      by simp
    then show "fst (getMessage channel [] (snd (postMessage channel (Inr mesg) lm))) =
                 respondJSON StatusBadRequest (Text ''Sorry No such channel exist!'')"
      by (rule getMessage_absent) simp
  }
  {
    assume "\<forall>c \<in> set channel. \<not> upperByte c"
    then have low: "ToLower channel = channel"
      by (rule ToLower_fixed)
    show "fst (getMessage channel [] (snd (postMessage channel (Inr mesg) lm))) =
              respondJSON StatusOK
                (MessagesOf (logOf lm channel @
                   [mesg\<lparr>Id := int (length (logOf lm channel)) + 1\<rparr>]))"
      using assms by (simp add: getMessage_def low postMessage_accepts)
  }
qed

theorem case_asymmetry_witness:
  "fst (postThread ''Alpha'' ''0'' (Inr \<lparr>ThreadUsername = ''c'', ThreadMessage = ''reply''\<rparr>)
          (snd (postMessage ''Alpha''
             (Inr \<lparr>Id = 0, Username = ''a'', Message = ''hi'', Threads = []\<rparr>) initial))) =
     Respond 200 (IdOf 0) \<and>
   fst (getMessage ''Alpha'' []
          (snd (postMessage ''Alpha''
             (Inr \<lparr>Id = 0, Username = ''a'', Message = ''hi'', Threads = []\<rparr>) initial))) =
     Respond 400 (Text ''Sorry No such channel exist!'') \<and>
   fst (getMessage ''alpha'' []
          (snd (postMessage ''alpha''
             (Inr \<lparr>Id = 0, Username = ''a'', Message = ''hi'', Threads = []\<rparr>) initial))) =
     Respond 200 (MessagesOf [\<lparr>Id = 1, Username = ''a'', Message = ''hi'', Threads = []\<rparr>])"
proof -
  let ?a = "\<lparr>Id = 0, Username = ''a'', Message = ''hi'', Threads = []\<rparr>"
  let ?t = "\<lparr>ThreadUsername = ''c'', ThreadMessage = ''reply''\<rparr>"
  have a: "Username ?a \<noteq> []" "Message ?a \<noteq> []"
    by simp_all
  have t: "ThreadUsername ?t \<noteq> []" "ThreadMessage ?t \<noteq> []"
    by simp_all
  have up: "\<exists>c \<in> set ''Alpha''. upperByte c"
    by (simp add: upperByte_def)
  have low: "\<forall>c \<in> set ''alpha''. \<not> upperByte c"
    by (simp add: upperByte_def)
  have none: "initial (ToLower ''Alpha'') = None"
    by (simp add: initial_def)
  from case_asymmetry [OF a t, of "''Alpha''" initial] up none
  have "fst (postThread ''Alpha'' ''0'' (Inr ?t) (snd (postMessage ''Alpha'' (Inr ?a) initial))) =
          respondJSON StatusOK (IdOf 0) \<and>
        fst (getMessage ''Alpha'' [] (snd (postMessage ''Alpha'' (Inr ?a) initial))) =
          respondJSON StatusBadRequest (Text ''Sorry No such channel exist!'')"
    by blast
  moreover from case_asymmetry [OF a t, of "''alpha''" initial] low
  have "fst (getMessage ''alpha'' [] (snd (postMessage ''alpha'' (Inr ?a) initial))) =
          respondJSON StatusOK
            (MessagesOf (logOf initial ''alpha'' @ [?a\<lparr>Id := int (length (logOf initial ''alpha'')) + 1\<rparr>]))"
    by blast
  ultimately show ?thesis
    by (simp add: logOf_initial respondJSON_def StatusOK_def StatusBadRequest_def)
qed

text \<open>
  C7 as stated has the read after a post under an uppercase name always report "no such
  channel". With a channel \<open>alpha\<close> already there, a post to \<open>Alpha\<close> is stored under
  \<open>Alpha\<close> and the read of \<open>Alpha\<close> answers with the log of \<open>alpha\<close>.
\<close>

theorem read_finds_lowercased_channel:
  "logOf (serve [PostMessage ''alpha'' (Inr \<lparr>Id = 0, Username = ''a'', Message = ''hi'', Threads = []\<rparr>),
                 PostMessage ''Alpha'' (Inr \<lparr>Id = 0, Username = ''b'', Message = ''yo'', Threads = []\<rparr>)]
            initial) ''Alpha'' =
     [\<lparr>Id = 1, Username = ''b'', Message = ''yo'', Threads = []\<rparr>] \<and>
   fst (getMessage ''Alpha'' []
          (serve [PostMessage ''alpha'' (Inr \<lparr>Id = 0, Username = ''a'', Message = ''hi'', Threads = []\<rparr>),
                  PostMessage ''Alpha'' (Inr \<lparr>Id = 0, Username = ''b'', Message = ''yo'', Threads = []\<rparr>)]
             initial)) =
     Respond 200 (MessagesOf [\<lparr>Id = 1, Username = ''a'', Message = ''hi'', Threads = []\<rparr>]) \<and>
   fst (getMessage ''Alpha'' []
          (serve [PostMessage ''alpha'' (Inr \<lparr>Id = 0, Username = ''a'', Message = ''hi'', Threads = []\<rparr>),
                  PostMessage ''Alpha'' (Inr \<lparr>Id = 0, Username = ''b'', Message = ''yo'', Threads = []\<rparr>)]
             initial)) \<noteq>
     respondJSON StatusBadRequest (Text ''Sorry No such channel exist!'')"
  by (simp add: postMessage_def createSubject_def appendUnderLock_def getMessage_def initial_def logOf_def lower_Alpha
      respondJSON_def StatusOK_def StatusBadRequest_def)

text \<open>
  C8 (as amended). \<open>getMessage\<close> and \<open>getThreads\<close> return the map they were given, for
  every map, channel name and parameter text, also when they panic. When nothing is stored
  under the lowercased channel name and the number parses, they answer "no such channel";
  the channel is not created.
\<close>

theorem reads_leave_map:
  "snd (getMessage channel key lm) = lm \<and>
   snd (getThreads channel message_id lm) = lm \<and>
   (lm (ToLower channel) = None \<longrightarrow>
      ((if key = [] then Some 0 else Atoi key) \<noteq> None \<longrightarrow>
         fst (getMessage channel key lm) =
           respondJSON StatusBadRequest (Text ''Sorry No such channel exist!'')) \<and>
      (Atoi message_id \<noteq> None \<longrightarrow>
         fst (getThreads channel message_id lm) =
           respondJSON StatusBadRequest (Text ''Sorry No such channel exist!'')))"
proof (intro conjI impI)
  show "snd (getMessage channel key lm) = lm"
    by (rule getMessage_frame)
  show "snd (getThreads channel message_id lm) = lm"
    by (rule getThreads_frame)
  assume none: "lm (ToLower channel) = None"
  {
    assume "(if key = [] then Some 0 else Atoi key) \<noteq> None"
    then obtain afterId where "(if key = [] then Some 0 else Atoi key) = Some afterId"
      by blast
    with none show "fst (getMessage channel key lm) =
           respondJSON StatusBadRequest (Text ''Sorry No such channel exist!'')"
      by (rule getMessage_absent)
  }
  {
    assume "Atoi message_id \<noteq> None"
    then obtain i where "Atoi message_id = Some i"
      by blast
    with none show "fst (getThreads channel message_id lm) =
           respondJSON StatusBadRequest (Text ''Sorry No such channel exist!'')"
      by (rule getThreads_absent)
  }
qed

theorem reads_leave_map_witness:
  "snd (getMessage ''never-created'' [] initial) = initial \<and>
   snd (getThreads ''never-created'' ''1'' initial) = initial \<and>
   fst (getMessage ''never-created'' [] initial) =
     Respond 400 (Text ''Sorry No such channel exist!'') \<and>
   fst (getThreads ''never-created'' ''1'' initial) =
     Respond 400 (Text ''Sorry No such channel exist!'')"
proof -
  have none: "initial (ToLower ''never-created'') = None"
    by (simp add: initial_def)
  have p1: "(if ([] :: string) = [] then Some 0 else Atoi []) \<noteq> None"
    by simp
  have p2: "Atoi ''1'' \<noteq> None"
    by (simp add: Atoi_1)
  from reads_leave_map [of "''never-created''" "[]" initial "''1''"] none p1 p2
  show ?thesis
    by (simp add: respondJSON_def StatusBadRequest_def)
qed

text \<open>
  C8 as stated promises "no such channel" for every name that was never written to. The
  name \<open>Alpha\<close> was never written to in the map below, and both reads of it answer from
  the channel \<open>alpha\<close>.
\<close>

theorem read_of_unwritten_name_answers:
  "serve [PostMessage ''alpha'' (Inr \<lparr>Id = 0, Username = ''a'', Message = ''hi'', Threads = []\<rparr>)]
     initial ''Alpha'' = None \<and>
   fst (getMessage ''Alpha'' []
          (serve [PostMessage ''alpha'' (Inr \<lparr>Id = 0, Username = ''a'', Message = ''hi'', Threads = []\<rparr>)]
             initial)) =
     Respond 200 (MessagesOf [\<lparr>Id = 1, Username = ''a'', Message = ''hi'', Threads = []\<rparr>]) \<and>
   fst (getThreads ''Alpha'' ''0''
          (serve [PostMessage ''alpha'' (Inr \<lparr>Id = 0, Username = ''a'', Message = ''hi'', Threads = []\<rparr>)]
             initial)) =
     Respond 200 (ThreadsOf [])"
  by (simp add: postMessage_def createSubject_def appendUnderLock_def getMessage_def getThreads_def initial_def lower_Alpha Atoi_0
      respondJSON_def StatusOK_def)




end
